theory Spec2Isabelle
  imports Main "HOL-Library.Word"
begin

unbundle bit_operations_syntax

section \<open>Package sms: the Message facade over the SMS PDU codecs\<close>

text \<open>
  The development follows the file of package \<^verbatim>\<open>sms\<close> that defines \<^verbatim>\<open>Message\<close>,
  \<^verbatim>\<open>cutStr\<close>, \<^verbatim>\<open>Message.PDU\<close> and \<^verbatim>\<open>Message.ReadFrom\<close>.
  A Go \<^verbatim>\<open>string\<close> is a sequence of bytes, here a \<^typ>\<open>string\<close> (a list of 8-bit
  characters), so that \<^term>\<open>length str\<close> is Go's \<^verbatim>\<open>len(str)\<close>. A \<^verbatim>\<open>[]byte\<close> is
  a list of 8-bit words, Go's \<^verbatim>\<open>int\<close> is \<^typ>\<open>int\<close>.
\<close>

type_synonym byte = "8 word"

subsection \<open>Go's conversions between strings and rune slices\<close>

text \<open>
  \<^verbatim>\<open>[]rune(str)\<close> decodes UTF-8: every byte that does not start a well-formed
  encoding yields the rune U+FFFD and is skipped alone. \<^verbatim>\<open>string(runes)\<close> encodes
  every rune in UTF-8, with U+FFFD for surrogates and values past U+10FFFF.
\<close>

definition locb :: "nat \<Rightarrow> bool" where
  "locb b = (0x80 \<le> b \<and> b \<le> 0xBF)"

definition decoderune :: "nat \<Rightarrow> nat list \<Rightarrow> (nat \<times> nat) option" where
  "decoderune b0 bs =
    (if 0xC2 \<le> b0 \<and> b0 \<le> 0xDF then
       (case bs of
          b1 # _ \<Rightarrow>
            if locb b1 then Some ((b0 mod 32) * 64 + b1 mod 64, 1) else None
        | _ \<Rightarrow> None)
     else if 0xE0 \<le> b0 \<and> b0 \<le> 0xEF then
       (case bs of
          b1 # b2 # _ \<Rightarrow>
            if (if b0 = 0xE0 then 0xA0 else 0x80) \<le> b1
               \<and> b1 \<le> (if b0 = 0xED then 0x9F else 0xBF) \<and> locb b2
            then Some ((b0 mod 16) * 4096 + (b1 mod 64) * 64 + b2 mod 64, 2)
            else None
        | _ \<Rightarrow> None)
     else if 0xF0 \<le> b0 \<and> b0 \<le> 0xF4 then
       (case bs of
          b1 # b2 # b3 # _ \<Rightarrow>
            if (if b0 = 0xF0 then 0x90 else 0x80) \<le> b1
               \<and> b1 \<le> (if b0 = 0xF4 then 0x8F else 0xBF) \<and> locb b2 \<and> locb b3
            then Some ((b0 mod 8) * 262144 + (b1 mod 64) * 4096 + (b2 mod 64) * 64
                        + b3 mod 64, 3)
            else None
        | _ \<Rightarrow> None)
     else None)"

fun stringtoslicerune :: "nat list \<Rightarrow> nat list" where
  "stringtoslicerune [] = []"
| "stringtoslicerune (b0 # bs) =
    (if b0 < 0x80 then b0 # stringtoslicerune bs
     else (case decoderune b0 bs of
             Some (r, w) \<Rightarrow> r # stringtoslicerune (drop w bs)
           | None \<Rightarrow> 0xFFFD # stringtoslicerune bs))"

definition encoderune :: "nat \<Rightarrow> nat list" where
  "encoderune r =
    (if r < 0x80 then [r]
     else if r < 0x800 then [0xC0 + r div 64, 0x80 + r mod 64]
     else if (0xD800 \<le> r \<and> r \<le> 0xDFFF) \<or> 0x10FFFF < r then [0xEF, 0xBF, 0xBD]
     else if r < 0x10000 then [0xE0 + r div 4096, 0x80 + (r div 64) mod 64, 0x80 + r mod 64]
     else [0xF0 + r div 262144, 0x80 + (r div 4096) mod 64, 0x80 + (r div 64) mod 64,
           0x80 + r mod 64])"

definition runes_of :: "string \<Rightarrow> nat list" where
  "runes_of str = stringtoslicerune (map of_char str)"

definition string_of :: "nat list \<Rightarrow> string" where
  "string_of rs = map char_of (concat (map encoderune rs))"

subsection \<open>The truncation helper of the source file\<close>

text \<open>A run-time panic of Go ends the call without a result.\<close>

datatype panic = SliceBoundsOutOfRange

text \<open>
  \<^verbatim>\<open>cutStr(str, n)\<close> converts \<^verbatim>\<open>str\<close> to runes, compares \<^verbatim>\<open>n\<close> with the number of
  \<^emph>\<open>bytes\<close> of \<^verbatim>\<open>str\<close> and, when smaller, returns \<^verbatim>\<open>string(runes[0:n])\<close>. Slicing a
  slice is in range up to its capacity, and Go leaves the capacity of a converted slice to
  the implementation: \<open>spare\<close> is the capacity past the length (the runtime zeroes it).
  With \<open>spare = 0\<close> every \<open>n\<close> past the number of runes panics.
\<close>

definition cutStr :: "nat \<Rightarrow> string \<Rightarrow> int \<Rightarrow> panic + string" where
  "cutStr spare str n =
    (let runes = runes_of str in
     if n < int (length str) then
       (if 0 \<le> n \<and> nat n \<le> length runes + spare
        then Inr (string_of (take (nat n) (runes @ replicate spare 0)))
        else Inl SliceBoundsOutOfRange)
     else Inr str)"

subsection \<open>Errors\<close>

text \<open>
  The five error values the file declares, the two errors of Go's readers
  (\<^verbatim>\<open>io.EOF\<close>, \<^verbatim>\<open>io.ErrUnexpectedEOF\<close>), and \<open>ErrOther\<close> for any error value
  that comes from a file outside the source and is none of these.
\<close>

datatype error =
    ErrUnknownEncoding
  | ErrUnknownMessageType
  | ErrIncorrectSize
  | ErrNonRelative
  | ErrIncorrectUserDataHeaderLength
  | EOF
  | ErrUnexpectedEOF
  | ErrOther string

subsection \<open>Types declared outside the source file\<close>

text \<open>
  Modelled from the spec: the types \<^verbatim>\<open>MessageType\<close>, \<^verbatim>\<open>Encoding\<close>,
  \<^verbatim>\<open>ValidityPeriodFormat\<close>, \<^verbatim>\<open>PhoneNumber\<close>, \<^verbatim>\<open>ValidityPeriod\<close>, \<^verbatim>\<open>Timestamp\<close> and
  \<^verbatim>\<open>UserDataHeader\<close> are declared in files that are not part of the source. The source
  converts the first three to and from \<^verbatim>\<open>byte\<close> and takes \<^verbatim>\<open>len\<close> of a phone number,
  so they are bytes and a string. The spec gives a validity period as a duration (counted
  here in minutes), a timestamp as six date and time fields with a signed offset in quarter
  hours, and a user-data header as an ordered list of elements (identifier, data).
\<close>

type_synonym MessageType = byte
type_synonym Encoding = byte
type_synonym ValidityPeriodFormat = byte
type_synonym PhoneNumber = string
type_synonym ValidityPeriod = int

record Timestamp =
  Year :: nat
  Month :: nat
  Day :: nat
  Hour :: nat
  Minute :: nat
  Second :: nat
  Offset :: int

type_synonym UserDataHeader = "(byte \<times> byte list) list"

text \<open>
  Modelled from the spec: the values of the enumerations \<^verbatim>\<open>MessageTypes\<close>,
  \<^verbatim>\<open>Encodings\<close> and \<^verbatim>\<open>ValidityPeriodFormats\<close>, declared outside the source. The spec
  gives the message type indicators (00 Deliver, 01 Submit, 10 StatusReport), the data coding
  schemes 0x00 (7-bit) and 0x08 (UCS-2), and the four validity-period formats, whose two
  bits are those of 3GPP TS 23.040, with \<^verbatim>\<open>FieldNotPresent\<close> the zero value. The spec
  names the second 7-bit scheme without its value; 0x11 (default alphabet with a message
  class) is taken here, and nothing below rests on it but that it differs from 0x00 and
  0x08.
\<close>

definition MessageTypes_Deliver :: MessageType where "MessageTypes_Deliver = 0x00"
definition MessageTypes_Submit :: MessageType where "MessageTypes_Submit = 0x01"
definition MessageTypes_StatusReport :: MessageType where "MessageTypes_StatusReport = 0x02"

definition Encodings_Gsm7Bit :: Encoding where "Encodings_Gsm7Bit = 0x00"
definition Encodings_Gsm7Bit_2 :: Encoding where "Encodings_Gsm7Bit_2 = 0x11"
definition Encodings_UCS2 :: Encoding where "Encodings_UCS2 = 0x08"

definition ValidityPeriodFormats_FieldNotPresent :: ValidityPeriodFormat where
  "ValidityPeriodFormats_FieldNotPresent = 0x00"
definition ValidityPeriodFormats_Relative :: ValidityPeriodFormat where
  "ValidityPeriodFormats_Relative = 0x02"
definition ValidityPeriodFormats_Enhanced :: ValidityPeriodFormat where
  "ValidityPeriodFormats_Enhanced = 0x01"
definition ValidityPeriodFormats_Absolute :: ValidityPeriodFormat where
  "ValidityPeriodFormats_Absolute = 0x03"

text \<open>
  Modelled from the spec: the frame structs \<^verbatim>\<open>smsDeliver\<close>, \<^verbatim>\<open>smsSubmit\<close> and
  \<^verbatim>\<open>smsStatusReport\<close> are declared outside the source; the records hold the fields the
  source reads or writes, under the source's names.
\<close>

record smsDeliver =
  MessageTypeIndicator :: byte
  MoreMessagesToSend :: bool
  LoopPrevention :: bool
  ReplyPath :: bool
  UserDataHeaderIndicator :: bool
  StatusReportIndication :: bool
  OriginatingAddress :: "byte list"
  ProtocolIdentifier :: byte
  DataCodingScheme :: byte
  ServiceCentreTimestamp :: "byte list"
  UserDataLength :: byte
  UserData :: "byte list"

record smsSubmit =
  MessageTypeIndicator :: byte
  RejectDuplicates :: bool
  ValidityPeriodFormat :: byte
  ReplyPath :: bool
  UserDataHeaderIndicator :: bool
  StatusReportRequest :: bool
  MessageReference :: byte
  DestinationAddress :: "byte list"
  ProtocolIdentifier :: byte
  DataCodingScheme :: byte
  ValidityPeriod :: byte
  UserDataLength :: byte
  UserData :: "byte list"

record smsStatusReport =
  MessageTypeIndicator :: byte
  UserDataHeaderIndicator :: bool
  MoreMessagesToSend :: bool
  LoopPrevention :: bool
  StatusReportQualificator :: bool
  MessageReference :: byte
  DestinationAddress :: "byte list"
  ServiceCentreTimestamp :: "byte list"
  DischargeTimestamp :: "byte list"
  Status :: byte
  DataCodingScheme :: byte
  UserDataLength :: byte
  UserData :: "byte list"

subsection \<open>The Message\<close>

record Message =
  Type :: MessageType
  Encoding :: Encoding
  VP :: ValidityPeriod
  VPFormat :: ValidityPeriodFormat
  ServiceCenterTime :: Timestamp
  DischargeTime :: Timestamp
  ServiceCenterAddress :: PhoneNumber
  Address :: PhoneNumber
  Text :: string
  UserDataHeader :: UserDataHeader
  MessageReference :: byte
  Status :: byte
  ReplyPathExists :: bool
  UserDataStartsWithHeader :: bool
  StatusReportIndication :: bool
  StatusReportRequest :: bool
  StatusReportQualificator :: bool
  MoreMessagesToSend :: bool
  LoopPrevention :: bool
  RejectDuplicates :: bool

text \<open>
  The zero value \<^verbatim>\<open>Message{}\<close>. The zero \<^verbatim>\<open>Timestamp\<close> is the zero time of Go,
  1 January of year 1 at 00:00:00 UTC.
\<close>

definition Timestamp_zero :: Timestamp where
  "Timestamp_zero =
    \<lparr> Year = 1, Month = 1, Day = 1, Hour = 0, Minute = 0, Second = 0, Offset = 0 \<rparr>"

definition Message_zero :: Message where
  "Message_zero =
    \<lparr> Type = 0, Encoding = 0, VP = 0, VPFormat = 0,
      ServiceCenterTime = Timestamp_zero, DischargeTime = Timestamp_zero,
      ServiceCenterAddress = [], Address = [], Text = [], UserDataHeader = [],
      MessageReference = 0, Status = 0,
      ReplyPathExists = False, UserDataStartsWithHeader = False,
      StatusReportIndication = False, StatusReportRequest = False,
      StatusReportQualificator = False, MoreMessagesToSend = False,
      LoopPrevention = False, RejectDuplicates = False \<rparr>"

subsection \<open>What the source calls and does not define\<close>

text \<open>
  \<^verbatim>\<open>PDU\<close> and \<^verbatim>\<open>ReadFrom\<close> call the codecs of phone numbers, timestamps, validity
  periods, user-data headers, the two text encodings of package \<^verbatim>\<open>pdu\<close> and the three
  frames. None of them is in the source: they are the fields of an environment \<open>E\<close>, and a
  theorem stated for every \<open>E\<close> holds whatever these functions compute. A method with a
  pointer receiver takes the old value and returns the new one. A call that returns an
  error beside a value returns both. The last field is the spare capacity of the rune
  slice that \<^verbatim>\<open>cutStr\<close> converts a string to.
\<close>

record env =
  PhoneNumber_PDU :: "PhoneNumber \<Rightarrow> error + (int \<times> byte list)"
  PhoneNumber_ReadFrom :: "byte list \<Rightarrow> PhoneNumber \<Rightarrow> PhoneNumber"
  Timestamp_PDU :: "Timestamp \<Rightarrow> byte list"
  Timestamp_ReadFrom :: "byte list \<Rightarrow> Timestamp \<Rightarrow> Timestamp"
  ValidityPeriod_Octet :: "ValidityPeriod \<Rightarrow> byte"
  ValidityPeriod_ReadFrom :: "byte \<Rightarrow> ValidityPeriod \<Rightarrow> ValidityPeriod"
  UserDataHeader_ReadFrom :: "byte list \<Rightarrow> UserDataHeader \<Rightarrow> UserDataHeader \<times> error option"
  Encode7Bit :: "string \<Rightarrow> byte list"
  Decode7Bit :: "byte list \<Rightarrow> string \<times> error option"
  EncodeUcs2 :: "string \<Rightarrow> byte list"
  DecodeUcs2 :: "byte list \<Rightarrow> bool \<Rightarrow> string \<times> error option"
  smsDeliver_Bytes :: "smsDeliver \<Rightarrow> byte list"
  smsDeliver_FromBytes :: "byte list \<Rightarrow> (int \<times> error) + (int \<times> smsDeliver)"
  smsSubmit_Bytes :: "smsSubmit \<Rightarrow> byte list"
  smsSubmit_FromBytes :: "byte list \<Rightarrow> (int \<times> error) + (int \<times> smsSubmit)"
  smsStatusReport_Bytes :: "smsStatusReport \<Rightarrow> byte list"
  smsStatusReport_FromBytes :: "byte list \<Rightarrow> (int \<times> error) + (int \<times> smsStatusReport)"
  rune_slice_spare :: "string \<Rightarrow> nat"

subsection \<open>Message.PDU\<close>

text \<open>
  The SMSC prefix written first into the buffer: the octet 0x00 for an empty service-centre
  address, otherwise the number of octets of the encoded address as one byte, then the
  octets.
\<close>

definition PDU_smsc :: "env \<Rightarrow> Message \<Rightarrow> error + byte list" where
  "PDU_smsc E s =
    (if length (ServiceCenterAddress s) < 1 then Inr [0x00]
     else (case PhoneNumber_PDU E (ServiceCenterAddress s) of
             Inl err \<Rightarrow> Inl err
           | Inr (_, octets) \<Rightarrow> Inr (of_nat (length octets) # octets)))"

text \<open>
  The switch on the encoding, the same in the three cases of the message type: the user
  data and the user-data-length octet. \<^verbatim>\<open>byte(len(...))\<close> keeps the low eight bits.
\<close>

definition PDU_userData :: "env \<Rightarrow> Message \<Rightarrow> error + (byte list \<times> byte)" where
  "PDU_userData E s =
    (if Encoding s = Encodings_Gsm7Bit \<or> Encoding s = Encodings_Gsm7Bit_2 then
       Inr (Encode7Bit E (Text s), of_nat (length (Text s)))
     else if Encoding s = Encodings_UCS2 then
       (let userData = EncodeUcs2 E (Text s) in Inr (userData, of_nat (length userData)))
     else Inl ErrUnknownEncoding)"

text \<open>The address field of a frame: the length \<^verbatim>\<open>Address.PDU\<close> returns, as one byte, and its octets.\<close>

definition PDU_address :: "env \<Rightarrow> Message \<Rightarrow> error + byte list" where
  "PDU_address E s =
    (case PhoneNumber_PDU E (Address s) of
       Inl err \<Rightarrow> Inl err
     | Inr (addrLen, addr) \<Rightarrow> Inr (word_of_int addrLen # addr))"

text \<open>
  The switch on the validity-period format of the Submit case: the octet of a relative
  period, the error for the absolute and enhanced formats, and the zero octet of the fresh
  frame for any other value.
\<close>

definition PDU_validityPeriod :: "env \<Rightarrow> Message \<Rightarrow> error + byte" where
  "PDU_validityPeriod E s =
    (if VPFormat s = ValidityPeriodFormats_Relative then Inr (ValidityPeriod_Octet E (VP s))
     else if VPFormat s = ValidityPeriodFormats_Absolute
             \<or> VPFormat s = ValidityPeriodFormats_Enhanced then Inl ErrNonRelative
     else Inr 0x00)"

text \<open>The frame each case builds before it serialises it.\<close>

definition PDU_smsDeliver :: "env \<Rightarrow> Message \<Rightarrow> error + smsDeliver" where
  "PDU_smsDeliver E s =
    (case PDU_address E s of
       Inl err \<Rightarrow> Inl err
     | Inr addrBuf \<Rightarrow>
        (case PDU_userData E s of
           Inl err \<Rightarrow> Inl err
         | Inr (userData, udl) \<Rightarrow>
            Inr \<lparr> smsDeliver.MessageTypeIndicator = Type s,
                  smsDeliver.MoreMessagesToSend = MoreMessagesToSend s,
                  smsDeliver.LoopPrevention = LoopPrevention s,
                  smsDeliver.ReplyPath = ReplyPathExists s,
                  smsDeliver.UserDataHeaderIndicator = UserDataStartsWithHeader s,
                  smsDeliver.StatusReportIndication = StatusReportIndication s,
                  smsDeliver.OriginatingAddress = addrBuf,
                  smsDeliver.ProtocolIdentifier = 0x00,
                  smsDeliver.DataCodingScheme = Encoding s,
                  smsDeliver.ServiceCentreTimestamp = Timestamp_PDU E (ServiceCenterTime s),
                  smsDeliver.UserDataLength = udl,
                  smsDeliver.UserData = userData \<rparr>))"

definition PDU_smsSubmit :: "env \<Rightarrow> Message \<Rightarrow> error + smsSubmit" where
  "PDU_smsSubmit E s =
    (case PDU_address E s of
       Inl err \<Rightarrow> Inl err
     | Inr addrBuf \<Rightarrow>
        (case PDU_validityPeriod E s of
           Inl err \<Rightarrow> Inl err
         | Inr vp \<Rightarrow>
          (case PDU_userData E s of
             Inl err \<Rightarrow> Inl err
           | Inr (userData, udl) \<Rightarrow>
              Inr \<lparr> smsSubmit.MessageTypeIndicator = Type s,
                    smsSubmit.RejectDuplicates = RejectDuplicates s,
                    smsSubmit.ValidityPeriodFormat = VPFormat s,
                    smsSubmit.ReplyPath = ReplyPathExists s,
                    smsSubmit.UserDataHeaderIndicator = UserDataStartsWithHeader s,
                    smsSubmit.StatusReportRequest = StatusReportRequest s,
                    smsSubmit.MessageReference = MessageReference s,
                    smsSubmit.DestinationAddress = addrBuf,
                    smsSubmit.ProtocolIdentifier = 0x00,
                    smsSubmit.DataCodingScheme = Encoding s,
                    smsSubmit.ValidityPeriod = vp,
                    smsSubmit.UserDataLength = udl,
                    smsSubmit.UserData = userData \<rparr>)))"

definition PDU_smsStatusReport :: "env \<Rightarrow> Message \<Rightarrow> error + smsStatusReport" where
  "PDU_smsStatusReport E s =
    (case PDU_address E s of
       Inl err \<Rightarrow> Inl err
     | Inr addrBuf \<Rightarrow>
        (case PDU_userData E s of
           Inl err \<Rightarrow> Inl err
         | Inr (userData, udl) \<Rightarrow>
            Inr \<lparr> smsStatusReport.MessageTypeIndicator = Type s,
                  smsStatusReport.UserDataHeaderIndicator = UserDataStartsWithHeader s,
                  smsStatusReport.MoreMessagesToSend = MoreMessagesToSend s,
                  smsStatusReport.LoopPrevention = LoopPrevention s,
                  smsStatusReport.StatusReportQualificator = StatusReportQualificator s,
                  smsStatusReport.MessageReference = MessageReference s,
                  smsStatusReport.DestinationAddress = addrBuf,
                  smsStatusReport.ServiceCentreTimestamp = Timestamp_PDU E (ServiceCenterTime s),
                  smsStatusReport.DischargeTimestamp = Timestamp_PDU E (DischargeTime s),
                  smsStatusReport.Status = Status s,
                  smsStatusReport.DataCodingScheme = 0x00,
                  smsStatusReport.UserDataLength = udl,
                  smsStatusReport.UserData = userData \<rparr>))"

text \<open>
  The switch on the message type, on a buffer that holds the SMSC prefix: the octets of the
  frame are appended and their number is returned beside the buffer.
\<close>

definition PDU_tpdu :: "env \<Rightarrow> Message \<Rightarrow> error + byte list" where
  "PDU_tpdu E s =
    (if Type s = MessageTypes_Deliver then
       (case PDU_smsDeliver E s of
          Inl err \<Rightarrow> Inl err | Inr sms \<Rightarrow> Inr (smsDeliver_Bytes E sms))
     else if Type s = MessageTypes_Submit then
       (case PDU_smsSubmit E s of
          Inl err \<Rightarrow> Inl err | Inr sms \<Rightarrow> Inr (smsSubmit_Bytes E sms))
     else if Type s = MessageTypes_StatusReport then
       (case PDU_smsStatusReport E s of
          Inl err \<Rightarrow> Inl err | Inr sms \<Rightarrow> Inr (smsStatusReport_Bytes E sms))
     else Inl ErrUnknownMessageType)"

definition PDU :: "env \<Rightarrow> Message \<Rightarrow> error + (int \<times> byte list)" where
  "PDU E s =
    (case PDU_smsc E s of
       Inl err \<Rightarrow> Inl err
     | Inr buf \<Rightarrow>
        (case PDU_tpdu E s of
           Inl err \<Rightarrow> Inl err
         | Inr octets \<Rightarrow> Inr (int (length octets), buf @ octets)))"

subsection \<open>Message.ReadFrom\<close>

text \<open>
  The switch on the encoding that ends each case of \<^verbatim>\<open>ReadFrom\<close>, the same in the three:
  \<open>s\<close> is the message so far, \<open>n\<close> the count so far. The result is the message, the count
  and the error returned, or a panic.
\<close>

definition ReadFrom_text ::
  "env \<Rightarrow> Message \<Rightarrow> int \<Rightarrow> byte list \<Rightarrow> byte \<Rightarrow> panic + (Message \<times> int \<times> error option)"
where
  "ReadFrom_text E s n userData udl =
    (if Encoding s = Encodings_Gsm7Bit \<or> Encoding s = Encodings_Gsm7Bit_2 then
       (case Decode7Bit E userData of
          (text, Some err) \<Rightarrow> Inr (s\<lparr>Text := text\<rparr>, n, Some err)
        | (text, None) \<Rightarrow>
           (case cutStr (rune_slice_spare E text) text (uint udl) of
              Inl p \<Rightarrow> Inl p
            | Inr text' \<Rightarrow> Inr (s\<lparr>Text := text'\<rparr>, n, None)))
     else if Encoding s = Encodings_UCS2 then
       (case DecodeUcs2 E userData (UserDataStartsWithHeader s) of
          (text, err) \<Rightarrow> Inr (s\<lparr>Text := text\<rparr>, n, err))
     else Inr (s, 0, Some ErrUnknownEncoding))"

definition ReadFrom_Deliver ::
  "env \<Rightarrow> Message \<Rightarrow> int \<Rightarrow> byte list \<Rightarrow> panic + (Message \<times> int \<times> error option)"
where
  "ReadFrom_Deliver E s n tpdu =
    (case smsDeliver_FromBytes E tpdu of
       Inl (off, err2) \<Rightarrow> Inr (s, n + off, Some err2)
     | Inr (off, sms) \<Rightarrow>
        (let n = n + off;
             s = s\<lparr> MoreMessagesToSend := smsDeliver.MoreMessagesToSend sms,
                    LoopPrevention := smsDeliver.LoopPrevention sms,
                    ReplyPathExists := smsDeliver.ReplyPath sms,
                    UserDataStartsWithHeader := smsDeliver.UserDataHeaderIndicator sms \<rparr>;
             (udh, err) =
               (if smsDeliver.UserDataHeaderIndicator sms
                then UserDataHeader_ReadFrom E (smsDeliver.UserData sms) (UserDataHeader s)
                else (UserDataHeader s, None));
             s = s\<lparr> UserDataHeader := udh \<rparr>
         in if err \<noteq> None then Inr (s, n, err)
            else
              (let s = s\<lparr> StatusReportIndication := smsDeliver.StatusReportIndication sms \<rparr>
               in if smsDeliver.OriginatingAddress sms = [] then Inl SliceBoundsOutOfRange
                  else
                    (let s = s\<lparr> Address :=
                                  PhoneNumber_ReadFrom E (tl (smsDeliver.OriginatingAddress sms))
                                    (Address s),
                                Encoding := smsDeliver.DataCodingScheme sms,
                                ServiceCenterTime :=
                                  Timestamp_ReadFrom E (smsDeliver.ServiceCentreTimestamp sms)
                                    (ServiceCenterTime s) \<rparr>
                     in ReadFrom_text E s n (smsDeliver.UserData sms)
                          (smsDeliver.UserDataLength sms)))))"

definition ReadFrom_Submit ::
  "env \<Rightarrow> Message \<Rightarrow> int \<Rightarrow> byte list \<Rightarrow> panic + (Message \<times> int \<times> error option)"
where
  "ReadFrom_Submit E s n tpdu =
    (case smsSubmit_FromBytes E tpdu of
       Inl (off, err2) \<Rightarrow> Inr (s, n + off, Some err2)
     | Inr (off, sms) \<Rightarrow>
        (let n = n + off;
             s = s\<lparr> RejectDuplicates := smsSubmit.RejectDuplicates sms \<rparr>
         in if VPFormat s = ValidityPeriodFormats_Absolute
               \<or> VPFormat s = ValidityPeriodFormats_Enhanced
            then Inr (s, n, Some ErrNonRelative)
            else
              (let s = s\<lparr> VPFormat := smsSubmit.ValidityPeriodFormat sms,
                          MessageReference := smsSubmit.MessageReference sms,
                          ReplyPathExists := smsSubmit.ReplyPath sms,
                          UserDataStartsWithHeader := smsSubmit.UserDataHeaderIndicator sms,
                          StatusReportRequest := smsSubmit.StatusReportRequest sms \<rparr>
               in if smsSubmit.DestinationAddress sms = [] then Inl SliceBoundsOutOfRange
                  else
                    (let s = s\<lparr> Address :=
                                  PhoneNumber_ReadFrom E (tl (smsSubmit.DestinationAddress sms))
                                    (Address s),
                                Encoding := smsSubmit.DataCodingScheme sms \<rparr>;
                         s = (if VPFormat s \<noteq> ValidityPeriodFormats_FieldNotPresent
                              then s\<lparr> VP := ValidityPeriod_ReadFrom E
                                                (smsSubmit.ValidityPeriod sms) (VP s) \<rparr>
                              else s)
                     in ReadFrom_text E s n (smsSubmit.UserData sms)
                          (smsSubmit.UserDataLength sms)))))"

definition ReadFrom_StatusReport ::
  "env \<Rightarrow> Message \<Rightarrow> int \<Rightarrow> byte list \<Rightarrow> panic + (Message \<times> int \<times> error option)"
where
  "ReadFrom_StatusReport E s n tpdu =
    (case smsStatusReport_FromBytes E tpdu of
       Inl (off, err2) \<Rightarrow> Inr (s, n + off, Some err2)
     | Inr (off, sms) \<Rightarrow>
        (let n = n + off;
             s = s\<lparr> MessageReference := smsStatusReport.MessageReference sms,
                    MoreMessagesToSend := smsStatusReport.MoreMessagesToSend sms,
                    LoopPrevention := smsStatusReport.LoopPrevention sms,
                    UserDataStartsWithHeader := smsStatusReport.UserDataHeaderIndicator sms \<rparr>;
             (udh, err) =
               (if smsStatusReport.UserDataHeaderIndicator sms
                then UserDataHeader_ReadFrom E (smsStatusReport.UserData sms) (UserDataHeader s)
                else (UserDataHeader s, None));
             s = s\<lparr> UserDataHeader := udh \<rparr>
         in if err \<noteq> None then Inr (s, n, err)
            else
              (let s = s\<lparr> StatusReportQualificator :=
                            smsStatusReport.StatusReportQualificator sms,
                          Status := smsStatusReport.Status sms \<rparr>
               in if smsStatusReport.DestinationAddress sms = [] then Inl SliceBoundsOutOfRange
                  else
                    (let s = s\<lparr> Address :=
                                  PhoneNumber_ReadFrom E
                                    (tl (smsStatusReport.DestinationAddress sms)) (Address s),
                                Encoding := smsStatusReport.DataCodingScheme sms,
                                ServiceCenterTime :=
                                  Timestamp_ReadFrom E
                                    (smsStatusReport.ServiceCentreTimestamp sms)
                                    (ServiceCenterTime s),
                                DischargeTime :=
                                  Timestamp_ReadFrom E (smsStatusReport.DischargeTimestamp sms)
                                    (DischargeTime s) \<rparr>
                     in ReadFrom_text E s n (smsStatusReport.UserData sms)
                          (smsStatusReport.UserDataLength sms)))))"

text \<open>
  \<^verbatim>\<open>ReadFrom\<close> resets the message, reads the SMSC length (one byte) and that many octets
  with \<^verbatim>\<open>io.ReadFull\<close> (\<^verbatim>\<open>EOF\<close> when none is left, \<^verbatim>\<open>ErrUnexpectedEOF\<close> when too
  few are), peeks the next octet for the message type and hands the octets from there on to
  the frame's decoder.
\<close>

definition ReadFrom :: "env \<Rightarrow> byte list \<Rightarrow> panic + (Message \<times> int \<times> error option)" where
  "ReadFrom E octets =
    (let s = Message_zero in
     case octets of
       [] \<Rightarrow> Inr (s, 1, Some EOF)
     | scLen # rest \<Rightarrow>
        if scLen > 16 then Inr (s, 0, Some ErrIncorrectSize)
        else
          (let addr = take (unat scLen) rest;
               n = 1 + int (length addr)
           in if length addr < unat scLen
              then Inr (s, n, Some (if addr = [] then EOF else ErrUnexpectedEOF))
              else
                (let s = s\<lparr> ServiceCenterAddress :=
                              PhoneNumber_ReadFrom E addr (ServiceCenterAddress s) \<rparr>
                 in case drop (unat scLen) rest of
                      [] \<Rightarrow> Inr (s, n + 1, Some EOF)
                    | msgType # _ \<Rightarrow>
                       (let s = s\<lparr> Type := msgType AND 0x03 \<rparr>;
                            tpdu = drop (unat (1 + scLen)) octets
                        in if Type s = MessageTypes_Deliver then ReadFrom_Deliver E s n tpdu
                           else if Type s = MessageTypes_Submit then ReadFrom_Submit E s n tpdu
                           else if Type s = MessageTypes_StatusReport
                             then ReadFrom_StatusReport E s n tpdu
                           else Inr (s, n, Some ErrUnknownMessageType)))))"

section \<open>A model of the absent codecs, from the spec\<close>

text \<open>
  The theorems on \<open>PDU\<close> and \<open>ReadFrom\<close> hold for every environment. To run them on
  concrete octets, the environment \<open>spec_env\<close> follows the component design of the spec.
\<close>

subsection \<open>Semi-octets, phone numbers, timestamps, validity periods\<close>

text \<open>
  Modelled from the spec: the semi-octet digit strings of package \<^verbatim>\<open>pdu\<close> (outside the
  source). Digits are packed in pairs, the first digit in the low nibble; an odd trailing
  digit has the filler 0xF in the high nibble; decoding drops the filler. The digits beyond
  9 are \<open>*\<close>, \<open>#\<close>, \<open>a\<close>, \<open>b\<close>, \<open>c\<close>; any other character is taken as the filler.
\<close>

definition digit_of_char :: "char \<Rightarrow> nat" where
  "digit_of_char c =
    (if 48 \<le> (of_char c :: nat) \<and> (of_char c :: nat) \<le> 57 then of_char c - 48
     else if c = CHR ''*'' then 10 else if c = CHR ''#'' then 11
     else if c = CHR ''a'' then 12 else if c = CHR ''b'' then 13
     else if c = CHR ''c'' then 14 else 15)"

definition char_of_digit :: "nat \<Rightarrow> char" where
  "char_of_digit d =
    (if d \<le> 9 then char_of (48 + d)
     else if d = 10 then CHR ''*'' else if d = 11 then CHR ''#''
     else if d = 12 then CHR ''a'' else if d = 13 then CHR ''b'' else CHR ''c'')"

fun EncodeSemiAddr_spec :: "nat list \<Rightarrow> byte list" where
  "EncodeSemiAddr_spec [] = []"
| "EncodeSemiAddr_spec [d] = [of_nat (15 * 16 + d mod 16)]"
| "EncodeSemiAddr_spec (d # e # ds) = of_nat ((e mod 16) * 16 + d mod 16) # EncodeSemiAddr_spec ds"

definition DecodeSemiAddr_spec :: "byte list \<Rightarrow> nat list" where
  "DecodeSemiAddr_spec octets =
    filter (\<lambda>d. d \<noteq> 15) (concat (map (\<lambda>b. [unat b mod 16, unat b div 16]) octets))"

text \<open>
  Modelled from the spec: \<^verbatim>\<open>PhoneNumber.PDU\<close> and \<^verbatim>\<open>PhoneNumber.ReadFrom\<close> (outside
  the source). The type-of-address byte is 0x91 for a number that starts with \<open>+\<close> (which
  is stripped) and 0x81 otherwise; the length returned counts digits; encoding never fails.
  Decoding reads the type-of-address byte and the digits, with \<open>+\<close> in front when the top
  nibble of the type of address is 9. On no octets at all there is no type of address to
  read and the number stays as it was.
\<close>

definition PhoneNumber_PDU_spec :: "PhoneNumber \<Rightarrow> error + (int \<times> byte list)" where
  "PhoneNumber_PDU_spec p =
    (case p of
       c # ds \<Rightarrow>
         if c = CHR ''+''
         then Inr (int (length ds), 0x91 # EncodeSemiAddr_spec (map digit_of_char ds))
         else Inr (int (length p), 0x81 # EncodeSemiAddr_spec (map digit_of_char p))
     | [] \<Rightarrow> Inr (0, [0x81]))"

definition PhoneNumber_ReadFrom_spec :: "byte list \<Rightarrow> PhoneNumber \<Rightarrow> PhoneNumber" where
  "PhoneNumber_ReadFrom_spec octets p =
    (case octets of
       [] \<Rightarrow> p
     | toa # ds \<Rightarrow>
        (if drop_bit 4 toa = 0x9 then ''+'' else '''')
          @ map char_of_digit (DecodeSemiAddr_spec ds))"

text \<open>
  Modelled from the spec: \<^verbatim>\<open>Timestamp.PDU\<close> and \<^verbatim>\<open>Timestamp.ReadFrom\<close> (outside the
  source). Seven octets: year modulo 100, month, day, hour, minute, second, offset in quarter
  hours; each is the swapped-nibble BCD of two digits, and a negative offset sets bit 3 of the
  tens digit. Decoding reads years as 2000 and later (scenario S1 of the spec) and leaves the
  timestamp as it was when fewer than seven octets are given.
\<close>

definition EncodeSemi_spec :: "nat \<Rightarrow> byte" where
  "EncodeSemi_spec v = of_nat ((v mod 10) * 16 + (v div 10) mod 10)"

definition DecodeSemi_spec :: "byte \<Rightarrow> nat" where
  "DecodeSemi_spec b = (unat b mod 16) * 10 + unat b div 16"

definition Timestamp_PDU_spec :: "Timestamp \<Rightarrow> byte list" where
  "Timestamp_PDU_spec t =
    [EncodeSemi_spec (Year t mod 100), EncodeSemi_spec (Month t), EncodeSemi_spec (Day t),
     EncodeSemi_spec (Hour t), EncodeSemi_spec (Minute t), EncodeSemi_spec (Second t),
     (let q = nat \<bar>Offset t\<bar>
      in of_nat ((q mod 10) * 16 + ((q div 10) mod 8 + (if Offset t < 0 then 8 else 0))))]"

definition Timestamp_ReadFrom_spec :: "byte list \<Rightarrow> Timestamp \<Rightarrow> Timestamp" where
  "Timestamp_ReadFrom_spec octets t =
    (case octets of
       [y, mo, d, h, mi, sec, tz] \<Rightarrow>
         \<lparr> Year = 2000 + DecodeSemi_spec y, Month = DecodeSemi_spec mo, Day = DecodeSemi_spec d,
           Hour = DecodeSemi_spec h, Minute = DecodeSemi_spec mi, Second = DecodeSemi_spec sec,
           Offset =
             (let q = int ((unat tz mod 8) * 10 + unat tz div 16)
              in if (unat tz div 8) mod 2 = 1 then - q else q) \<rparr>
     | _ \<Rightarrow> t)"

text \<open>
  Modelled from the spec: \<^verbatim>\<open>ValidityPeriod.Octet\<close> and \<^verbatim>\<open>ValidityPeriod.ReadFrom\<close>
  (outside the source), on durations in minutes. An octet \<open>v\<close> stands for \<open>(v + 1) * 5\<close>
  minutes up to 143, twelve hours and \<open>(v - 143) * 30\<close> minutes up to 167, \<open>v - 166\<close> days up
  to 196 and \<open>v - 192\<close> weeks from there; the octet of a duration is the inverse by these
  thresholds.
\<close>

definition ValidityPeriod_ReadFrom_spec :: "byte \<Rightarrow> ValidityPeriod \<Rightarrow> ValidityPeriod" where
  "ValidityPeriod_ReadFrom_spec b vp =
    (let v = uint b
     in if v \<le> 143 then (v + 1) * 5
        else if v \<le> 167 then 720 + (v - 143) * 30
        else if v \<le> 196 then (v - 166) * 1440
        else (v - 192) * 10080)"

definition ValidityPeriod_Octet_spec :: "ValidityPeriod \<Rightarrow> byte" where
  "ValidityPeriod_Octet_spec d =
    (if d \<le> 720 then word_of_int (d div 5 - 1)
     else if d \<le> 1440 then word_of_int (143 + (d - 720) div 30)
     else if d \<le> 43200 then word_of_int (166 + d div 1440)
     else word_of_int (192 + d div 10080))"

subsection \<open>The user-data header\<close>

text \<open>
  Modelled from the spec: \<^verbatim>\<open>UserDataHeader.ReadFrom\<close> (outside the source). The first
  octet is the header length; the elements follow as identifier, length, data. It fails with
  \<open>ErrIncorrectUserDataHeaderLength\<close> when the header length plus one exceeds the number of
  octets or an element overruns the header, and then leaves the header as it was.
\<close>

fun udh_elements :: "byte list \<Rightarrow> UserDataHeader option" where
  "udh_elements [] = Some []"
| "udh_elements [iei] = None"
| "udh_elements (iei # iedl # rest) =
    (if length rest < unat iedl then None
     else (case udh_elements (drop (unat iedl) rest) of
             None \<Rightarrow> None
           | Some es \<Rightarrow> Some ((iei, take (unat iedl) rest) # es)))"

definition UserDataHeader_ReadFrom_spec ::
  "byte list \<Rightarrow> UserDataHeader \<Rightarrow> UserDataHeader \<times> error option"
where
  "UserDataHeader_ReadFrom_spec octets h =
    (case octets of
       [] \<Rightarrow> (h, Some ErrIncorrectUserDataHeaderLength)
     | udhl # rest \<Rightarrow>
        if length octets < unat udhl + 1 then (h, Some ErrIncorrectUserDataHeaderLength)
        else (case udh_elements (take (unat udhl) rest) of
                None \<Rightarrow> (h, Some ErrIncorrectUserDataHeaderLength)
              | Some es \<Rightarrow> (es, None)))"

subsection \<open>The text encodings\<close>

text \<open>
  Modelled from the spec: the default alphabet of GSM and its extension table (package
  \<^verbatim>\<open>pdu\<close>, outside the source), as code points by septet value. The spec lists the first
  entries and refers to 3GPP TS 23.038 for the rest. Position 0x1B is the escape.
\<close>

definition gsmTable :: "nat list" where
  "gsmTable =
    [0x40, 0xA3, 0x24, 0xA5, 0xE8, 0xE9, 0xF9, 0xEC, 0xF2, 0xC7, 0x0A, 0xD8, 0xF8, 0x0D, 0xC5, 0xE5,
     0x394, 0x5F, 0x3A6, 0x393, 0x39B, 0x3A9, 0x3A0, 0x3A8, 0x3A3, 0x398, 0x39E, 0x1B, 0xC6, 0xE6, 0xDF, 0xC9,
     0x20, 0x21, 0x22, 0x23, 0xA4, 0x25, 0x26, 0x27, 0x28, 0x29, 0x2A, 0x2B, 0x2C, 0x2D, 0x2E, 0x2F,
     0x30, 0x31, 0x32, 0x33, 0x34, 0x35, 0x36, 0x37, 0x38, 0x39, 0x3A, 0x3B, 0x3C, 0x3D, 0x3E, 0x3F,
     0xA1, 0x41, 0x42, 0x43, 0x44, 0x45, 0x46, 0x47, 0x48, 0x49, 0x4A, 0x4B, 0x4C, 0x4D, 0x4E, 0x4F,
     0x50, 0x51, 0x52, 0x53, 0x54, 0x55, 0x56, 0x57, 0x58, 0x59, 0x5A, 0xC4, 0xD6, 0xD1, 0xDC, 0xA7,
     0xBF, 0x61, 0x62, 0x63, 0x64, 0x65, 0x66, 0x67, 0x68, 0x69, 0x6A, 0x6B, 0x6C, 0x6D, 0x6E, 0x6F,
     0x70, 0x71, 0x72, 0x73, 0x74, 0x75, 0x76, 0x77, 0x78, 0x79, 0x7A, 0xE4, 0xF6, 0xF1, 0xFC, 0xE0]"

definition gsmEscapes :: "(nat \<times> nat) list" where
  "gsmEscapes =
    [(0x14, 0x5E), (0x28, 0x7B), (0x29, 0x7D), (0x2F, 0x5C), (0x3C, 0x5B), (0x3D, 0x7E),
     (0x3E, 0x5D), (0x40, 0x7C), (0x65, 0x20AC)]"

fun index_of :: "nat \<Rightarrow> nat list \<Rightarrow> nat option" where
  "index_of r [] = None"
| "index_of r (x # xs) =
    (if r = x then Some 0 else (case index_of r xs of None \<Rightarrow> None | Some i \<Rightarrow> Some (Suc i)))"

text \<open>
  Modelled from the spec: the septets of a text. A character of the default table is its
  index, a character of the extension table is the escape and its code, and any other
  character is replaced by a space, as the spec reports of the source.
\<close>

definition septets_of_rune :: "nat \<Rightarrow> nat list" where
  "septets_of_rune r =
    (case index_of r gsmTable of
       Some i \<Rightarrow> [i]
     | None \<Rightarrow>
        (case map_of (map (\<lambda>(c, u). (u, c)) gsmEscapes) r of
           Some c \<Rightarrow> [0x1B, c]
         | None \<Rightarrow> [0x20]))"

fun runes_of_septets :: "nat list \<Rightarrow> nat list" where
  "runes_of_septets [] = []"
| "runes_of_septets [x] = (if x = 0x1B then [] else [gsmTable ! (x mod 128)])"
| "runes_of_septets (x # y # xs) =
    (if x = 0x1B
     then (case map_of gsmEscapes y of Some u \<Rightarrow> u | None \<Rightarrow> 0x20) # runes_of_septets xs
     else gsmTable ! (x mod 128) # runes_of_septets (y # xs))"

text \<open>
  Modelled from the spec: septet packing (package \<^verbatim>\<open>pdu\<close>, outside the source). The
  septets are concatenated bit by bit, least significant first, and cut into octets: \<open>N\<close>
  septets give \<open>\<lceil>7N/8\<rceil>\<close> octets, the unused high bits zero. The accumulator holds the \<open>k\<close>
  bits not yet written (\<open>k\<close> below 8 when packing, below 7 when unpacking). Unpacking reads
  every whole septet of the octets, so it can return one septet more than was packed.
\<close>

fun pack7 :: "nat \<Rightarrow> nat \<Rightarrow> nat list \<Rightarrow> byte list" where
  "pack7 acc k [] = (if k = 0 then [] else [of_nat acc])"
| "pack7 acc k (x # xs) =
    (let acc' = acc + (x mod 128) * 2 ^ k
     in if 8 \<le> k + 7 then of_nat (acc' mod 256) # pack7 (acc' div 256) (k + 7 - 8) xs
        else pack7 acc' (k + 7) xs)"

fun unpack7 :: "nat \<Rightarrow> nat \<Rightarrow> byte list \<Rightarrow> nat list" where
  "unpack7 acc k [] = []"
| "unpack7 acc k (b # bs) =
    (let acc' = acc + unat b * 2 ^ k
     in if 14 \<le> k + 8
        then acc' mod 128 # (acc' div 128) mod 128 # unpack7 (acc' div 16384) (k + 8 - 14) bs
        else acc' mod 128 # unpack7 (acc' div 128) (k + 8 - 7) bs)"

definition pack7Bit :: "nat list \<Rightarrow> byte list" where
  "pack7Bit raw7 = pack7 0 0 raw7"

definition unpack7Bit :: "byte list \<Rightarrow> nat list" where
  "unpack7Bit octets = unpack7 0 0 octets"

text \<open>
  Modelled from the spec: \<^verbatim>\<open>pdu.Encode7Bit\<close> and \<^verbatim>\<open>pdu.Decode7Bit\<close> (outside the
  source). Decoding is total.
\<close>

definition Encode7Bit_spec :: "string \<Rightarrow> byte list" where
  "Encode7Bit_spec str = pack7Bit (concat (map septets_of_rune (runes_of str)))"

definition Decode7Bit_spec :: "byte list \<Rightarrow> string \<times> error option" where
  "Decode7Bit_spec octets = (string_of (runes_of_septets (unpack7Bit octets)), None)"

text \<open>
  Modelled from the spec: \<^verbatim>\<open>pdu.EncodeUcs2\<close> and \<^verbatim>\<open>pdu.DecodeUcs2\<close> (outside the
  source): UTF-16, big-endian, a character past U+FFFF as a surrogate pair. Decoding skips
  the user-data header (its length octet and that many octets) when the flag is set and
  fails with \<open>ErrIncorrectSize\<close> on an odd number of octets.
\<close>

definition utf16_units :: "nat \<Rightarrow> nat list" where
  "utf16_units r =
    (if r < 0x10000 then [r]
     else [0xD800 + (r - 0x10000) div 1024, 0xDC00 + (r - 0x10000) mod 1024])"

fun utf16_runes :: "nat list \<Rightarrow> nat list" where
  "utf16_runes [] = []"
| "utf16_runes [u] = [if 0xD800 \<le> u \<and> u \<le> 0xDFFF then 0xFFFD else u]"
| "utf16_runes (u # v # us) =
    (if 0xD800 \<le> u \<and> u \<le> 0xDBFF \<and> 0xDC00 \<le> v \<and> v \<le> 0xDFFF
     then (0x10000 + (u - 0xD800) * 1024 + (v - 0xDC00)) # utf16_runes us
     else (if 0xD800 \<le> u \<and> u \<le> 0xDFFF then 0xFFFD else u) # utf16_runes (v # us))"

fun be_units :: "byte list \<Rightarrow> nat list" where
  "be_units (hi # lo # bs) = (unat hi * 256 + unat lo) # be_units bs"
| "be_units _ = []"

definition EncodeUcs2_spec :: "string \<Rightarrow> byte list" where
  "EncodeUcs2_spec str =
    concat (map (\<lambda>u. [of_nat (u div 256), of_nat (u mod 256)])
              (concat (map utf16_units (runes_of str))))"

definition DecodeUcs2_spec :: "byte list \<Rightarrow> bool \<Rightarrow> string \<times> error option" where
  "DecodeUcs2_spec octets startsWithHeader =
    (let body = (if startsWithHeader
                 then (case octets of [] \<Rightarrow> [] | udhl # rest \<Rightarrow> drop (unat udhl) rest)
                 else octets)
     in if odd (length body) then ([], Some ErrIncorrectSize)
        else (string_of (utf16_runes (be_units body)), None))"

subsection \<open>The frames\<close>

text \<open>
  Modelled from the spec: the flag octet of each frame (\<^verbatim>\<open>Bytes\<close> and \<^verbatim>\<open>FromBytes\<close>
  of the three frame structs are outside the source). Bit 7 is the reply path, bit 6 the
  user-data-header indicator, bit 5 the status-report bit, bits 4 and 3 the validity-period
  format of a Submit, bit 3 the loop prevention of the two others, bit 2 the reject-duplicates
  flag of a Submit and, inverted, the more-messages flag of the two others, bits 1 and 0 the
  message type.
\<close>

definition flag :: "nat \<Rightarrow> bool \<Rightarrow> byte" where
  "flag i b = (if b then push_bit i 1 else 0)"

definition smsDeliver_header :: "smsDeliver \<Rightarrow> byte" where
  "smsDeliver_header f =
    (smsDeliver.MessageTypeIndicator f AND 0x03)
      OR flag 2 (\<not> smsDeliver.MoreMessagesToSend f)
      OR flag 3 (smsDeliver.LoopPrevention f)
      OR flag 5 (smsDeliver.StatusReportIndication f)
      OR flag 6 (smsDeliver.UserDataHeaderIndicator f)
      OR flag 7 (smsDeliver.ReplyPath f)"

definition smsSubmit_header :: "smsSubmit \<Rightarrow> byte" where
  "smsSubmit_header f =
    (smsSubmit.MessageTypeIndicator f AND 0x03)
      OR flag 2 (smsSubmit.RejectDuplicates f)
      OR push_bit 3 (smsSubmit.ValidityPeriodFormat f AND 0x03)
      OR flag 5 (smsSubmit.StatusReportRequest f)
      OR flag 6 (smsSubmit.UserDataHeaderIndicator f)
      OR flag 7 (smsSubmit.ReplyPath f)"

definition smsStatusReport_header :: "smsStatusReport \<Rightarrow> byte" where
  "smsStatusReport_header f =
    (smsStatusReport.MessageTypeIndicator f AND 0x03)
      OR flag 2 (\<not> smsStatusReport.MoreMessagesToSend f)
      OR flag 3 (smsStatusReport.LoopPrevention f)
      OR flag 5 (smsStatusReport.StatusReportQualificator f)
      OR flag 6 (smsStatusReport.UserDataHeaderIndicator f)"

text \<open>
  Modelled from the spec: the address field of a frame on the wire, a length octet that
  counts digits, the type of address and the semi-octets of the digits. Reading yields the
  field, length octet included, and the octets after it.
\<close>

definition read_address :: "byte list \<Rightarrow> (byte list \<times> byte list) option" where
  "read_address octets =
    (case octets of
       [] \<Rightarrow> None
     | l # rest \<Rightarrow>
        (let k = 1 + (unat l + 1) div 2
         in if length rest < k then None else Some (l # take k rest, drop k rest)))"

text \<open>
  Modelled from the spec: \<^verbatim>\<open>smsDeliver.Bytes\<close> and \<^verbatim>\<open>smsDeliver.FromBytes\<close>. After
  the flag octet: the originating address, the protocol identifier, the data coding scheme,
  the seven octets of the service-centre timestamp, the user-data length and the user data,
  which is every octet that remains. A field cut short is \<open>ErrIncorrectSize\<close>, with the
  number of octets before it.
\<close>

definition smsDeliver_Bytes_spec :: "smsDeliver \<Rightarrow> byte list" where
  "smsDeliver_Bytes_spec f =
    smsDeliver_header f # smsDeliver.OriginatingAddress f
      @ [smsDeliver.ProtocolIdentifier f, smsDeliver.DataCodingScheme f]
      @ smsDeliver.ServiceCentreTimestamp f
      @ [smsDeliver.UserDataLength f] @ smsDeliver.UserData f"

definition smsDeliver_FromBytes_spec :: "byte list \<Rightarrow> (int \<times> error) + (int \<times> smsDeliver)" where
  "smsDeliver_FromBytes_spec octets =
    (case octets of
       [] \<Rightarrow> Inl (0, ErrIncorrectSize)
     | h # r1 \<Rightarrow>
        (case read_address r1 of
           None \<Rightarrow> Inl (1, ErrIncorrectSize)
         | Some (oa, r2) \<Rightarrow>
            if length r2 < 10 then Inl (1 + int (length oa), ErrIncorrectSize)
            else Inr (int (length octets),
              \<lparr> smsDeliver.MessageTypeIndicator = h AND 0x03,
                smsDeliver.MoreMessagesToSend = (\<not> bit h 2),
                smsDeliver.LoopPrevention = bit h 3,
                smsDeliver.ReplyPath = bit h 7,
                smsDeliver.UserDataHeaderIndicator = bit h 6,
                smsDeliver.StatusReportIndication = bit h 5,
                smsDeliver.OriginatingAddress = oa,
                smsDeliver.ProtocolIdentifier = r2 ! 0,
                smsDeliver.DataCodingScheme = r2 ! 1,
                smsDeliver.ServiceCentreTimestamp = take 7 (drop 2 r2),
                smsDeliver.UserDataLength = r2 ! 9,
                smsDeliver.UserData = drop 10 r2 \<rparr>)))"

text \<open>
  Modelled from the spec: \<^verbatim>\<open>smsSubmit.Bytes\<close> and \<^verbatim>\<open>smsSubmit.FromBytes\<close>. After the
  flag octet: the message reference, the destination address, the protocol identifier, the
  data coding scheme, the validity period (one octet when the format is not
  \<open>FieldNotPresent\<close>, none otherwise; the frame codec reads no format as an error), the
  user-data length and the user data.
\<close>

definition smsSubmit_Bytes_spec :: "smsSubmit \<Rightarrow> byte list" where
  "smsSubmit_Bytes_spec f =
    smsSubmit_header f # smsSubmit.MessageReference f # smsSubmit.DestinationAddress f
      @ [smsSubmit.ProtocolIdentifier f, smsSubmit.DataCodingScheme f]
      @ (if smsSubmit.ValidityPeriodFormat f AND 0x03 = ValidityPeriodFormats_FieldNotPresent
         then [] else [smsSubmit.ValidityPeriod f])
      @ [smsSubmit.UserDataLength f] @ smsSubmit.UserData f"

definition smsSubmit_FromBytes_spec :: "byte list \<Rightarrow> (int \<times> error) + (int \<times> smsSubmit)" where
  "smsSubmit_FromBytes_spec octets =
    (case octets of
       h # mr # r1 \<Rightarrow>
        (case read_address r1 of
           None \<Rightarrow> Inl (2, ErrIncorrectSize)
         | Some (da, r2) \<Rightarrow>
            (let vpf = drop_bit 3 h AND 0x03;
                 k = (if vpf = ValidityPeriodFormats_FieldNotPresent then 0 else 1)
             in if length r2 < 3 + k then Inl (2 + int (length da), ErrIncorrectSize)
                else Inr (int (length octets),
                  \<lparr> smsSubmit.MessageTypeIndicator = h AND 0x03,
                    smsSubmit.RejectDuplicates = bit h 2,
                    smsSubmit.ValidityPeriodFormat = vpf,
                    smsSubmit.ReplyPath = bit h 7,
                    smsSubmit.UserDataHeaderIndicator = bit h 6,
                    smsSubmit.StatusReportRequest = bit h 5,
                    smsSubmit.MessageReference = mr,
                    smsSubmit.DestinationAddress = da,
                    smsSubmit.ProtocolIdentifier = r2 ! 0,
                    smsSubmit.DataCodingScheme = r2 ! 1,
                    smsSubmit.ValidityPeriod = (if k = 0 then 0 else r2 ! 2),
                    smsSubmit.UserDataLength = r2 ! (2 + k),
                    smsSubmit.UserData = drop (3 + k) r2 \<rparr>)))
     | _ \<Rightarrow> Inl (int (length octets), ErrIncorrectSize))"

text \<open>
  Modelled from the spec: \<^verbatim>\<open>smsStatusReport.Bytes\<close> and
  \<^verbatim>\<open>smsStatusReport.FromBytes\<close>. After the flag octet: the message reference, the
  recipient address, the two timestamps of seven octets, the status, the user-data length and
  the user data. The optional parameter-indicator octet is left out (the spec gives no rule
  for its presence), and the frame read has the data coding scheme 0.
\<close>

definition smsStatusReport_Bytes_spec :: "smsStatusReport \<Rightarrow> byte list" where
  "smsStatusReport_Bytes_spec f =
    smsStatusReport_header f # smsStatusReport.MessageReference f
      # smsStatusReport.DestinationAddress f
      @ smsStatusReport.ServiceCentreTimestamp f @ smsStatusReport.DischargeTimestamp f
      @ [smsStatusReport.Status f, smsStatusReport.UserDataLength f]
      @ smsStatusReport.UserData f"

definition smsStatusReport_FromBytes_spec ::
  "byte list \<Rightarrow> (int \<times> error) + (int \<times> smsStatusReport)"
where
  "smsStatusReport_FromBytes_spec octets =
    (case octets of
       h # mr # r1 \<Rightarrow>
        (case read_address r1 of
           None \<Rightarrow> Inl (2, ErrIncorrectSize)
         | Some (da, r2) \<Rightarrow>
            if length r2 < 16 then Inl (2 + int (length da), ErrIncorrectSize)
            else Inr (int (length octets),
              \<lparr> smsStatusReport.MessageTypeIndicator = h AND 0x03,
                smsStatusReport.UserDataHeaderIndicator = bit h 6,
                smsStatusReport.MoreMessagesToSend = (\<not> bit h 2),
                smsStatusReport.LoopPrevention = bit h 3,
                smsStatusReport.StatusReportQualificator = bit h 5,
                smsStatusReport.MessageReference = mr,
                smsStatusReport.DestinationAddress = da,
                smsStatusReport.ServiceCentreTimestamp = take 7 r2,
                smsStatusReport.DischargeTimestamp = take 7 (drop 7 r2),
                smsStatusReport.Status = r2 ! 14,
                smsStatusReport.DataCodingScheme = 0x00,
                smsStatusReport.UserDataLength = r2 ! 15,
                smsStatusReport.UserData = drop 16 r2 \<rparr>))
     | _ \<Rightarrow> Inl (int (length octets), ErrIncorrectSize))"

subsection \<open>The environment of the spec\<close>

text \<open>
  Modelled from the spec: the environment made of the definitions above. The rune slice
  of \<^verbatim>\<open>cutStr\<close> is the one of the Go runtime for a slice that does not outlive the
  call: a string of up to 32 runes is converted into a buffer of 32 runes, so the spare
  capacity is what is left of 32. A longer string is converted into an allocated slice;
  how far the allocator rounds its capacity up is not modelled, and such a string is given
  no spare capacity here.
\<close>

definition spec_env :: env where
  "spec_env =
    \<lparr> PhoneNumber_PDU = PhoneNumber_PDU_spec,
      PhoneNumber_ReadFrom = PhoneNumber_ReadFrom_spec,
      Timestamp_PDU = Timestamp_PDU_spec,
      Timestamp_ReadFrom = Timestamp_ReadFrom_spec,
      ValidityPeriod_Octet = ValidityPeriod_Octet_spec,
      ValidityPeriod_ReadFrom = ValidityPeriod_ReadFrom_spec,
      UserDataHeader_ReadFrom = UserDataHeader_ReadFrom_spec,
      Encode7Bit = Encode7Bit_spec,
      Decode7Bit = Decode7Bit_spec,
      EncodeUcs2 = EncodeUcs2_spec,
      DecodeUcs2 = DecodeUcs2_spec,
      smsDeliver_Bytes = smsDeliver_Bytes_spec,
      smsDeliver_FromBytes = smsDeliver_FromBytes_spec,
      smsSubmit_Bytes = smsSubmit_Bytes_spec,
      smsSubmit_FromBytes = smsSubmit_FromBytes_spec,
      smsStatusReport_Bytes = smsStatusReport_Bytes_spec,
      smsStatusReport_FromBytes = smsStatusReport_FromBytes_spec,
      rune_slice_spare = (\<lambda>str. 32 - length (runes_of str)) \<rparr>"

section \<open>The round trip: the messages it is stated for\<close>










section \<open>Messages and octets for the evaluations\<close>

text \<open>Scenario S1 of the spec: a Deliver with the text \<open>Test\<close>, and its octets.\<close>

definition msg_S1 :: Message where
  "msg_S1 =
    Message_zero\<lparr> Type := MessageTypes_Deliver, Encoding := Encodings_Gsm7Bit,
      Address := ''+21436587090'', Text := ''Test'',
      ServiceCenterTime :=
        \<lparr> Year = 2011, Month = 1, Day = 12, Hour = 4, Minute = 5, Second = 6, Offset = 0 \<rparr> \<rparr>"

definition octets_S1 :: "byte list" where
  "octets_S1 =
    [0x00, 0x04, 0x0B, 0x91, 0x12, 0x34, 0x56, 0x78, 0x90, 0xF0, 0x00, 0x00,
     0x11, 0x10, 0x21, 0x40, 0x50, 0x60, 0x00, 0x04, 0xD4, 0xF2, 0x9C, 0x0E]"

text \<open>Scenario S2 of the spec: a Submit with a relative validity period of ten minutes.\<close>

definition msg_S2 :: Message where
  "msg_S2 =
    Message_zero\<lparr> Type := MessageTypes_Submit, Encoding := Encodings_Gsm7Bit,
      Address := ''15551234'', Text := ''hi'',
      VPFormat := ValidityPeriodFormats_Relative, VP := 10 \<rparr>"

text \<open>A Deliver with the data coding scheme 0x04 (8-bit data), which \<open>PDU\<close> does not encode.\<close>

definition msg_data :: Message where
  "msg_data =
    Message_zero\<lparr> Type := MessageTypes_Deliver, Encoding := 0x04, Address := ''15551234'' \<rparr>"

text \<open>A Submit with the Absolute format and the data coding scheme 0x04.\<close>

definition msg_absolute_data :: Message where
  "msg_absolute_data =
    Message_zero\<lparr> Type := MessageTypes_Submit, Encoding := 0x04, Address := ''15551234'',
      VPFormat := ValidityPeriodFormats_Absolute \<rparr>"

text \<open>A Submit frame whose format bits are those of the Absolute format.\<close>

definition octets_absolute :: "byte list" where
  "octets_absolute =
    [0x00, 0x19, 0x07, 0x08, 0x81, 0x51, 0x55, 0x21, 0x43, 0x00, 0x00, 0x01, 0x02, 0xE8, 0x34]"

text \<open>A Deliver whose text is the one character U+00E9, the bytes C3 A9 in UTF-8.\<close>

definition msg_e_acute :: Message where
  "msg_e_acute =
    Message_zero\<lparr> Type := MessageTypes_Deliver, Encoding := Encodings_Gsm7Bit,
      Address := ''15551234'', Text := [CHR 0xC3, CHR 0xA9],
      ServiceCenterTime :=
        \<lparr> Year = 2011, Month = 1, Day = 12, Hour = 4, Minute = 5, Second = 6, Offset = 0 \<rparr> \<rparr>"

text \<open>
  A Submit frame and a Deliver frame with the header indicator set, the data coding scheme
  of UCS-2 and the same user data: a header of one element (identifier 0x00, data C2 02 01)
  and the text \<open>hi\<close>.
\<close>

definition octets_submit_udh :: "byte list" where
  "octets_submit_udh =
    [0x00, 0x41, 0x00, 0x08, 0x81, 0x51, 0x55, 0x21, 0x43, 0x00, 0x08, 0x0A,
     0x05, 0x00, 0x03, 0xC2, 0x02, 0x01, 0x00, 0x68, 0x00, 0x69]"

definition octets_deliver_udh :: "byte list" where
  "octets_deliver_udh =
    [0x00, 0x44, 0x08, 0x81, 0x51, 0x55, 0x21, 0x43, 0x00, 0x08,
     0x11, 0x10, 0x21, 0x40, 0x50, 0x60, 0x00, 0x0A,
     0x05, 0x00, 0x03, 0xC2, 0x02, 0x01, 0x00, 0x68, 0x00, 0x69]"

text \<open>
  A Deliver frame under the 7-bit encoding with the user-data length 2 and the two septets
  escape, 0x65: the character U+20AC.
\<close>

definition octets_euro :: "byte list" where
  "octets_euro =
    [0x00, 0x04, 0x08, 0x81, 0x51, 0x55, 0x21, 0x43, 0x00, 0x00,
     0x11, 0x10, 0x21, 0x40, 0x50, 0x60, 0x00, 0x02, 0x9B, 0x32]"






section \<open>The truncation helper on its own\<close>

lemma stringtoslicerune_ascii:
  "list_all (\<lambda>b. b < 0x80) bs \<Longrightarrow> stringtoslicerune bs = bs"
  by (induction bs) auto

lemma encoderune_ascii:
  "list_all (\<lambda>b. b < 0x80) rs \<Longrightarrow> concat (map encoderune rs) = rs"
  by (induction rs) (auto simp: encoderune_def)

text \<open>
  On a string of one-byte characters (every byte below 0x80) bytes and runes coincide and
  \<open>cutStr\<close> is the prefix of \<open>n\<close> characters, whatever the spare capacity.
\<close>

lemma cutStr_ascii:
  assumes "list_all (\<lambda>c. (of_char c :: nat) < 0x80) str" and "0 \<le> n"
  shows "cutStr spare str n = Inr (take (nat n) str)"
proof -
  have bs: "list_all (\<lambda>b. b < 0x80) (map of_char str :: nat list)"
    using assms(1) by (simp add: list_all_iff)
  have r: "runes_of str = map of_char str"
    by (simp add: runes_of_def stringtoslicerune_ascii [OF bs])
  show ?thesis
  proof (cases "n < int (length str)")
    case True
    then have le: "nat n \<le> length str" by simp
    have "list_all (\<lambda>b. b < 0x80) (take (nat n) (map of_char str :: nat list))"
      using bs set_take_subset [of "nat n" "map of_char str :: nat list"]
      by (auto simp: list_all_iff)
    then have "string_of (take (nat n) (map of_char str)) = map char_of (take (nat n) (map of_char str :: nat list))"
      by (simp add: string_of_def encoderune_ascii)
    also have "\<dots> = take (nat n) str"
      by (simp add: take_map [symmetric] comp_def)
    finally show ?thesis
      using True le assms(2) by (simp add: cutStr_def r)
  next
    case False
    then show ?thesis by (simp add: cutStr_def)
  qed
qed



text \<open>
  C10. The claim: for every string and every \<open>n \<ge> 0\<close>, \<open>cutStr\<close> is defined and returns
  the first \<open>n\<close> characters when the string has more than \<open>n\<close> characters, and the string
  unchanged otherwise, also for multi-byte characters. The code compares \<open>n\<close> with the byte
  count: on the two characters U+00E9 U+00E9 (four bytes) and \<open>n = 3\<close> the string has no
  more than \<open>n\<close> characters, yet the code slices three runes out of two. Without spare
  capacity that is a panic; with spare capacity the result is the string followed by NUL
  characters. In no case is the string returned unchanged.
\<close>

theorem cutStr_multibyte_not_unchanged:
  "cutStr spare [CHR 0xC3, CHR 0xA9, CHR 0xC3, CHR 0xA9] 3 =
     (if spare = 0 then Inl SliceBoundsOutOfRange
      else Inr [CHR 0xC3, CHR 0xA9, CHR 0xC3, CHR 0xA9, CHR 0x00])"
  by (cases spare)
     (simp_all add: cutStr_def runes_of_def string_of_def decoderune_def locb_def
        encoderune_def char_of_def bit_Suc_0_iff)

section \<open>Evaluation\<close>

lemmas enum_defs =
  MessageTypes_Deliver_def MessageTypes_Submit_def MessageTypes_StatusReport_def
  Encodings_Gsm7Bit_def Encodings_Gsm7Bit_2_def Encodings_UCS2_def
  ValidityPeriodFormats_FieldNotPresent_def ValidityPeriodFormats_Relative_def
  ValidityPeriodFormats_Enhanced_def ValidityPeriodFormats_Absolute_def

lemmas PDU_defs =
  PDU_def PDU_smsc_def PDU_tpdu_def PDU_smsDeliver_def PDU_smsSubmit_def
  PDU_smsStatusReport_def PDU_address_def PDU_userData_def PDU_validityPeriod_def

lemmas ReadFrom_defs =
  ReadFrom_def ReadFrom_Deliver_def ReadFrom_Submit_def ReadFrom_StatusReport_def
  ReadFrom_text_def

lemmas go_defs =
  cutStr_def runes_of_def string_of_def decoderune_def locb_def encoderune_def
  char_of_def bit_Suc_0_iff

lemmas spec_defs =
  spec_env_def digit_of_char_def char_of_digit_def DecodeSemiAddr_spec_def
  PhoneNumber_PDU_spec_def PhoneNumber_ReadFrom_spec_def EncodeSemi_spec_def
  DecodeSemi_spec_def Timestamp_PDU_spec_def Timestamp_ReadFrom_spec_def
  ValidityPeriod_ReadFrom_spec_def ValidityPeriod_Octet_spec_def
  UserDataHeader_ReadFrom_spec_def gsmTable_def gsmEscapes_def septets_of_rune_def
  pack7Bit_def unpack7Bit_def Encode7Bit_spec_def Decode7Bit_spec_def utf16_units_def
  EncodeUcs2_spec_def DecodeUcs2_spec_def flag_def smsDeliver_header_def
  smsSubmit_header_def smsStatusReport_header_def read_address_def
  smsDeliver_Bytes_spec_def smsDeliver_FromBytes_spec_def smsSubmit_Bytes_spec_def
  smsSubmit_FromBytes_spec_def smsStatusReport_Bytes_spec_def
  smsStatusReport_FromBytes_spec_def Timestamp_zero_def Message_zero_def

section \<open>The SMSC prefix\<close>

text \<open>
  C8. An SMSC length above 16 as first octet: \<open>ReadFrom\<close> returns the count 0 and
  \<open>ErrIncorrectSize\<close>, and leaves the message at its zero value. The result names neither
  the octets after the first nor the environment: no further octet is read.
\<close>

theorem ReadFrom_smsc_length_above_16:
  "16 < scLen \<Longrightarrow> ReadFrom E (scLen # rest) = Inr (Message_zero, 0, Some ErrIncorrectSize)"
  by (simp add: ReadFrom_def)

theorem ReadFrom_smsc_length_above_16_witness:
  "(16 :: byte) < 0x11
   \<and> ReadFrom spec_env [0x11, 0x91, 0x21, 0x43] = Inr (Message_zero, 0, Some ErrIncorrectSize)"
  using ReadFrom_smsc_length_above_16 [of "0x11" spec_env "[0x91, 0x21, 0x43]"] by simp

lemma PDU_tpdu_ServiceCenterAddress:
  "PDU_tpdu E (s\<lparr>ServiceCenterAddress := a\<rparr>) = PDU_tpdu E s"
proof -
  let ?s = "s\<lparr>ServiceCenterAddress := a\<rparr>"
  have u: "PDU_userData E ?s = PDU_userData E s"
    by (simp add: PDU_userData_def)
  have a: "PDU_address E ?s = PDU_address E s"
    by (simp add: PDU_address_def)
  have v: "PDU_validityPeriod E ?s = PDU_validityPeriod E s"
    by (simp add: PDU_validityPeriod_def)
  have "PDU_smsDeliver E ?s = PDU_smsDeliver E s"
    by (simp add: PDU_smsDeliver_def u a cong: sum.case_cong)
  moreover have "PDU_smsSubmit E ?s = PDU_smsSubmit E s"
    by (simp add: PDU_smsSubmit_def u a v cong: sum.case_cong)
  moreover have "PDU_smsStatusReport E ?s = PDU_smsStatusReport E s"
    by (simp add: PDU_smsStatusReport_def u a cong: sum.case_cong)
  ultimately show ?thesis
    by (simp add: PDU_tpdu_def)
qed

text \<open>
  C9. With an empty service-centre address the octets of \<open>PDU\<close> are the octet 0x00 and
  then the octets of the frame, whose number is the count returned; an error of the frame
  is the error of \<open>PDU\<close>. (By \<open>PDU_tpdu_ServiceCenterAddress\<close> the frame does not depend
  on the service-centre address.)
\<close>

theorem PDU_empty_ServiceCenterAddress:
  "ServiceCenterAddress s = [] \<Longrightarrow>
   PDU E s =
     (case PDU_tpdu E s of
        Inl err \<Rightarrow> Inl err
      | Inr tpdu \<Rightarrow> Inr (int (length tpdu), 0x00 # tpdu))"
  by (simp add: PDU_def PDU_smsc_def split: sum.splits)

lemma PDU_tpdu_S1: "PDU_tpdu spec_env msg_S1 = Inr (tl octets_S1)"
  by (simp add: msg_S1_def octets_S1_def PDU_defs enum_defs spec_defs go_defs)

theorem PDU_empty_ServiceCenterAddress_witness:
  "ServiceCenterAddress msg_S1 = [] \<and> PDU spec_env msg_S1 = Inr (23, octets_S1)"
  using PDU_empty_ServiceCenterAddress [of msg_S1 spec_env]
  by (simp add: PDU_tpdu_S1) (simp add: msg_S1_def octets_S1_def Message_zero_def)

section \<open>Errors of the encoder\<close>

text \<open>
  Under the codecs of the spec no address fails to encode: the two hypotheses on the
  addresses below hold for every message there.
\<close>

lemma PDU_smsc_spec_env: "\<exists>buf. PDU_smsc spec_env s = Inr buf"
  by (simp add: PDU_smsc_def spec_env_def PDU_address_def PhoneNumber_PDU_spec_def
      split: list.splits)

lemma PDU_address_spec_env: "\<exists>addrBuf. PDU_address spec_env s = Inr addrBuf"
  by (simp add: PDU_address_def spec_env_def PhoneNumber_PDU_spec_def split: list.splits)

text \<open>
  C7. A Submit message whose addresses encode: with the validity-period format Absolute
  or Enhanced \<open>PDU\<close> is \<open>ErrNonRelative\<close> (an error carries no octets); with the format
  Relative the frame that is serialised holds the octet of the validity period, and \<open>PDU\<close>
  is the SMSC prefix followed by the octets of that frame.
\<close>

theorem PDU_Submit_validity_period:
  assumes "Type s = MessageTypes_Submit"
    and "PDU_smsc E s = Inr buf"
    and "PDU_address E s = Inr addrBuf"
  shows "(VPFormat s = ValidityPeriodFormats_Absolute
            \<or> VPFormat s = ValidityPeriodFormats_Enhanced \<longrightarrow>
          PDU E s = Inl ErrNonRelative)
       \<and> (VPFormat s = ValidityPeriodFormats_Relative \<longrightarrow>
          PDU E s =
            (case PDU_smsSubmit E s of
               Inl err \<Rightarrow> Inl err
             | Inr sms \<Rightarrow>
                Inr (int (length (smsSubmit_Bytes E sms)), buf @ smsSubmit_Bytes E sms))
          \<and> (\<forall>sms. PDU_smsSubmit E s = Inr sms \<longrightarrow>
                smsSubmit.ValidityPeriodFormat sms = ValidityPeriodFormats_Relative
                \<and> smsSubmit.ValidityPeriod sms = ValidityPeriod_Octet E (VP s)))"
  using assms
  by (auto simp: PDU_def PDU_tpdu_def PDU_smsSubmit_def PDU_validityPeriod_def enum_defs
      split: sum.splits)

theorem PDU_Submit_validity_period_witness:
  "Type msg_S2 = MessageTypes_Submit
   \<and> PDU_smsc spec_env msg_S2 = Inr [0x00]
   \<and> PDU_address spec_env msg_S2 = Inr [0x08, 0x81, 0x51, 0x55, 0x21, 0x43]
   \<and> VPFormat msg_S2 = ValidityPeriodFormats_Relative
   \<and> ValidityPeriod_Octet spec_env (VP msg_S2) = 0x01
   \<and> PDU spec_env msg_S2 =
       Inr (14, [0x00, 0x11, 0x00, 0x08, 0x81, 0x51, 0x55, 0x21, 0x43, 0x00, 0x00, 0x01,
                 0x02, 0xE8, 0x34])
   \<and> PDU spec_env (msg_S2\<lparr>VPFormat := ValidityPeriodFormats_Absolute\<rparr>) = Inl ErrNonRelative"
  using PDU_Submit_validity_period
          [of msg_S2 spec_env "[0x00]" "[0x08, 0x81, 0x51, 0x55, 0x21, 0x43]"]
        PDU_Submit_validity_period
          [of "msg_S2\<lparr>VPFormat := ValidityPeriodFormats_Absolute\<rparr>" spec_env "[0x00]"
              "[0x08, 0x81, 0x51, 0x55, 0x21, 0x43]"]
  by (simp add: msg_S2_def PDU_defs enum_defs spec_defs go_defs)

text \<open>
  C6. The claim gives \<open>ErrUnknownEncoding\<close> for every message whose encoding is not one of
  the three. A Submit message with the Absolute format and the encoding 0x04 is
  \<open>ErrNonRelative\<close>: the validity period is checked before the encoding.
\<close>

theorem PDU_unsupported_encoding_counterexample:
  "Encoding msg_absolute_data \<notin> {Encodings_Gsm7Bit, Encodings_Gsm7Bit_2, Encodings_UCS2}
   \<and> PDU spec_env msg_absolute_data = Inl ErrNonRelative"
  by (simp add: msg_absolute_data_def PDU_defs enum_defs spec_defs)

text \<open>
  C6, amended. For a message whose addresses encode, \<open>PDU\<close> is \<open>ErrUnknownMessageType\<close>
  exactly when the type is none of Deliver, Submit, StatusReport; for one of these types,
  \<open>ErrNonRelative\<close> exactly when it is a Submit with the Absolute or Enhanced format;
  otherwise \<open>ErrUnknownEncoding\<close> exactly when the encoding is none of the three, and a
  value when it is one of them.
\<close>

theorem PDU_errors:
  assumes "PDU_smsc E s = Inr buf" and "PDU_address E s = Inr addrBuf"
  shows "((PDU E s = Inl ErrUnknownMessageType) =
           (Type s \<notin> {MessageTypes_Deliver, MessageTypes_Submit, MessageTypes_StatusReport}))
       \<and> (Type s \<in> {MessageTypes_Deliver, MessageTypes_Submit, MessageTypes_StatusReport} \<longrightarrow>
           ((PDU E s = Inl ErrNonRelative) =
             (Type s = MessageTypes_Submit
              \<and> VPFormat s \<in> {ValidityPeriodFormats_Absolute, ValidityPeriodFormats_Enhanced})))
       \<and> (Type s \<in> {MessageTypes_Deliver, MessageTypes_Submit, MessageTypes_StatusReport}
           \<and> \<not> (Type s = MessageTypes_Submit
                 \<and> VPFormat s \<in> {ValidityPeriodFormats_Absolute, ValidityPeriodFormats_Enhanced})
           \<longrightarrow>
           ((PDU E s = Inl ErrUnknownEncoding) =
              (Encoding s \<notin> {Encodings_Gsm7Bit, Encodings_Gsm7Bit_2, Encodings_UCS2}))
           \<and> (Encoding s \<in> {Encodings_Gsm7Bit, Encodings_Gsm7Bit_2, Encodings_UCS2} \<longrightarrow>
                (\<exists>n octets. PDU E s = Inr (n, octets))))"
  using assms
  by (auto simp: PDU_def PDU_tpdu_def PDU_smsDeliver_def PDU_smsSubmit_def
      PDU_smsStatusReport_def PDU_validityPeriod_def PDU_userData_def enum_defs Let_def
      split: sum.splits if_splits)

theorem PDU_errors_witness:
  "PDU_smsc spec_env msg_data = Inr [0x00]
   \<and> PDU_address spec_env msg_data = Inr [0x08, 0x81, 0x51, 0x55, 0x21, 0x43]
   \<and> Type msg_data \<in> {MessageTypes_Deliver, MessageTypes_Submit, MessageTypes_StatusReport}
   \<and> Encoding msg_data \<notin> {Encodings_Gsm7Bit, Encodings_Gsm7Bit_2, Encodings_UCS2}
   \<and> PDU spec_env msg_data = Inl ErrUnknownEncoding
   \<and> PDU spec_env (msg_data\<lparr>Type := 0x03\<rparr>) = Inl ErrUnknownMessageType
   \<and> (\<exists>n octets. PDU spec_env (msg_data\<lparr>Encoding := Encodings_UCS2\<rparr>) = Inr (n, octets))"
  using PDU_errors [of spec_env msg_data "[0x00]" "[0x08, 0x81, 0x51, 0x55, 0x21, 0x43]"]
  by (simp add: msg_data_def PDU_defs enum_defs spec_defs go_defs)

section \<open>The decoder\<close>

lemma ReadFrom_text_error:
  assumes "ReadFrom_text E s n ud udl = Inr (s', n', Some e)"
  shows "(\<exists>t. Decode7Bit E ud = (t, Some e))
       \<or> (\<exists>t. DecodeUcs2 E ud (UserDataStartsWithHeader s) = (t, Some e))
       \<or> e = ErrUnknownEncoding"
  using assms
  by (auto simp: ReadFrom_text_def split: if_splits prod.splits option.splits sum.splits)

lemma ReadFrom_text_UserDataHeader:
  assumes "ReadFrom_text E s n ud udl = Inr (s', n', e)"
  shows "UserDataHeader s' = UserDataHeader s"
  using assms
  by (auto simp: ReadFrom_text_def split: if_splits prod.splits option.splits sum.splits)

text \<open>
  In the Submit case, on a message whose format is still \<open>FieldNotPresent\<close>, an error
  returned is the error of the frame decoder or of a text decoder, or it is
  \<open>ErrUnknownEncoding\<close>: the switch on the format of the message returns nothing.
\<close>

lemma ReadFrom_Submit_error:
  assumes "VPFormat s = ValidityPeriodFormats_FieldNotPresent"
    and "ReadFrom_Submit E s n tpdu = Inr (s', n', Some e)"
  shows "(\<exists>off. smsSubmit_FromBytes E tpdu = Inl (off, e))
       \<or> (\<exists>ud t. Decode7Bit E ud = (t, Some e))
       \<or> (\<exists>ud h t. DecodeUcs2 E ud h = (t, Some e))
       \<or> e = ErrUnknownEncoding"
proof (cases "smsSubmit_FromBytes E tpdu")
  case (Inl a)
  then show ?thesis
    using assms(2) by (cases a) (auto simp: ReadFrom_Submit_def)
next
  case (Inr b)
  obtain off sms where b: "b = (off, sms)" by (cases b)
  from assms Inr b obtain s0 where
    "ReadFrom_text E s0 (n + off) (smsSubmit.UserData sms) (smsSubmit.UserDataLength sms)
       = Inr (s', n', Some e)"
    by (auto simp: ReadFrom_Submit_def Let_def enum_defs split: if_splits)
  from ReadFrom_text_error [OF this] show ?thesis by blast
qed

lemma ReadFrom_Submit_UserDataHeader:
  assumes "ReadFrom_Submit E s n tpdu = Inr (s', n', e)"
  shows "UserDataHeader s' = UserDataHeader s"
proof (cases "smsSubmit_FromBytes E tpdu")
  case (Inl a)
  then show ?thesis
    using assms by (cases a) (auto simp: ReadFrom_Submit_def)
next
  case (Inr b)
  obtain off sms where b: "b = (off, sms)" by (cases b)
  show ?thesis
    using assms Inr b
    by (auto simp: ReadFrom_Submit_def Let_def split: if_splits
        dest!: ReadFrom_text_UserDataHeader)
qed

text \<open>
  The octets that select the Submit case: an SMSC length of at most 16, that many octets,
  and a next octet whose two low bits are 01. \<open>ReadFrom\<close> is then the Submit case on the
  zero message with the service-centre address and the type set.
\<close>

lemma ReadFrom_selects_Submit:
  assumes "scLen \<le> 16" and "unat scLen < length rest"
    and "(rest ! unat scLen) AND 0x03 = MessageTypes_Submit"
  shows "ReadFrom E (scLen # rest) =
           ReadFrom_Submit E
             (Message_zero\<lparr> ServiceCenterAddress :=
                               PhoneNumber_ReadFrom E (take (unat scLen) rest) [],
                             Type := MessageTypes_Submit \<rparr>)
             (1 + int (unat scLen)) (drop (unat scLen) rest)"
proof -
  have d: "drop (unat scLen) rest = rest ! unat scLen # drop (Suc (unat scLen)) rest"
    using assms(2) by (simp add: Cons_nth_drop_Suc)
  have u: "unat (1 + scLen) = Suc (unat scLen)"
    using assms(1) by (simp add: unat_word_ariths word_le_nat_alt)
  have l: "min (length rest) (unat scLen) = unat scLen"
    using assms(2) by simp
  have n16: "\<not> 16 < scLen"
    using assms(1) by simp
  have z: "ServiceCenterAddress Message_zero = []"
    by (simp add: Message_zero_def)
  show ?thesis
    using assms(2,3)
    by (simp add: ReadFrom_def Let_def d u z l n16 enum_defs)
qed

text \<open>
  C5. On octets that select the Submit case, \<open>ReadFrom\<close> is the Submit case on a
  message whose format is \<open>FieldNotPresent\<close> (the message has been reset, and the wire
  format is assigned after the switch on the format), and it never returns
  \<open>ErrNonRelative\<close>, whatever the format bits on the wire, as long as no callee (the
  frame decoder, the two text decoders) reports that error itself.
\<close>

theorem ReadFrom_Submit_never_ErrNonRelative:
  assumes "scLen \<le> 16" and "unat scLen < length rest"
    and "(rest ! unat scLen) AND 0x03 = MessageTypes_Submit"
    and "\<forall>tpdu off. smsSubmit_FromBytes E tpdu \<noteq> Inl (off, ErrNonRelative)"
    and "\<forall>ud t. Decode7Bit E ud \<noteq> (t, Some ErrNonRelative)"
    and "\<forall>ud h t. DecodeUcs2 E ud h \<noteq> (t, Some ErrNonRelative)"
  shows "(\<exists>s0 n. VPFormat s0 = ValidityPeriodFormats_FieldNotPresent
            \<and> ReadFrom E (scLen # rest) = ReadFrom_Submit E s0 n (drop (unat scLen) rest))
       \<and> (\<forall>s' n'. ReadFrom E (scLen # rest) \<noteq> Inr (s', n', Some ErrNonRelative))"
proof (intro conjI allI notI)
  let ?s0 = "Message_zero\<lparr> ServiceCenterAddress :=
                              PhoneNumber_ReadFrom E (take (unat scLen) rest) [],
                            Type := MessageTypes_Submit \<rparr>"
  have v: "VPFormat ?s0 = ValidityPeriodFormats_FieldNotPresent"
    by (simp add: Message_zero_def enum_defs)
  show "\<exists>s0 n. VPFormat s0 = ValidityPeriodFormats_FieldNotPresent
          \<and> ReadFrom E (scLen # rest) = ReadFrom_Submit E s0 n (drop (unat scLen) rest)"
    using v ReadFrom_selects_Submit [OF assms(1-3), of E] by blast
  fix s' n'
  assume r: "ReadFrom E (scLen # rest) = Inr (s', n', Some ErrNonRelative)"
  from ReadFrom_Submit_error [OF v r [unfolded ReadFrom_selects_Submit [OF assms(1-3)]]]
  show False
    using assms(4-6) by auto
qed

lemma smsSubmit_FromBytes_spec_error:
  "smsSubmit_FromBytes_spec tpdu = Inl (off, e) \<Longrightarrow> e = ErrIncorrectSize"
  by (auto simp: smsSubmit_FromBytes_spec_def Let_def split: list.splits option.splits if_splits)

theorem ReadFrom_Submit_never_ErrNonRelative_witness:
  "(0x00 :: byte) \<le> 16 \<and> unat (0x00 :: byte) < length (tl octets_absolute)
   \<and> (tl octets_absolute ! unat (0x00 :: byte)) AND 0x03 = MessageTypes_Submit
   \<and> (\<forall>tpdu off. smsSubmit_FromBytes spec_env tpdu \<noteq> Inl (off, ErrNonRelative))
   \<and> (\<forall>ud t. Decode7Bit spec_env ud \<noteq> (t, Some ErrNonRelative))
   \<and> (\<forall>ud h t. DecodeUcs2 spec_env ud h \<noteq> (t, Some ErrNonRelative))
   \<and> (\<forall>s' n'. ReadFrom spec_env octets_absolute \<noteq> Inr (s', n', Some ErrNonRelative))
   \<and> ReadFrom spec_env octets_absolute =
       Inr (Message_zero\<lparr> Type := MessageTypes_Submit, Encoding := Encodings_Gsm7Bit,
                          Address := ''15551234'', Text := ''hi'',
                          VPFormat := ValidityPeriodFormats_Absolute, VP := 10,
                          MessageReference := 0x07 \<rparr>, 15, None)"
proof -
  have 1: "\<forall>tpdu off. smsSubmit_FromBytes spec_env tpdu \<noteq> Inl (off, ErrNonRelative)"
    by (auto simp: spec_env_def dest: smsSubmit_FromBytes_spec_error)
  have 2: "\<forall>ud t. Decode7Bit spec_env ud \<noteq> (t, Some ErrNonRelative)"
    by (simp add: spec_env_def Decode7Bit_spec_def)
  have 3: "\<forall>ud h t. DecodeUcs2 spec_env ud h \<noteq> (t, Some ErrNonRelative)"
    by (simp add: spec_env_def DecodeUcs2_spec_def Let_def)
  have 4: "(tl octets_absolute ! unat (0x00 :: byte)) AND 0x03 = MessageTypes_Submit"
    by (simp add: octets_absolute_def enum_defs)
  have 5: "unat (0x00 :: byte) < length (tl octets_absolute)"
    by (simp add: octets_absolute_def)
  have 6: "octets_absolute = 0x00 # tl octets_absolute"
    by (simp add: octets_absolute_def)
  have 7: "ReadFrom spec_env octets_absolute =
       Inr (Message_zero\<lparr> Type := MessageTypes_Submit, Encoding := Encodings_Gsm7Bit,
                          Address := ''15551234'', Text := ''hi'',
                          VPFormat := ValidityPeriodFormats_Absolute, VP := 10,
                          MessageReference := 0x07 \<rparr>, 15, None)"
    by (simp add: octets_absolute_def ReadFrom_defs enum_defs spec_defs go_defs)
  have "\<forall>s' n'. ReadFrom spec_env (0x00 # tl octets_absolute)
          \<noteq> Inr (s', n', Some ErrNonRelative)"
    using ReadFrom_Submit_never_ErrNonRelative [of "0x00" "tl octets_absolute" spec_env]
      1 2 3 4 5 by simp
  then show ?thesis
    using 1 2 3 4 5 6 7 by simp
qed

section \<open>The user-data length of the encoder\<close>

text \<open>
  The user-data-length octet that \<open>PDU\<close> writes, for every environment: under a 7-bit
  encoding the number of bytes of the text, under UCS-2 the number of octets of the user
  data, each reduced to eight bits.
\<close>

lemma PDU_userData_length:
  assumes "PDU_userData E s = Inr (userData, udl)"
  shows "udl =
    (if Encoding s = Encodings_Gsm7Bit \<or> Encoding s = Encodings_Gsm7Bit_2
     then of_nat (length (Text s)) else of_nat (length userData))"
  using assms by (auto simp: PDU_userData_def Let_def split: if_splits)

text \<open>
  C2. The claim: under a 7-bit encoding the user-data-length octet is the number of
  septets of the encoded text. For the text of the one character U+00E9 (two bytes in
  UTF-8, the septet 0x05 of the default alphabet) the frame holds the user-data length 2
  before the single octet 0x05 of the one septet.
\<close>

theorem PDU_user_data_length_of_e_acute:
  "concat (map septets_of_rune (runes_of (Text msg_e_acute))) = [0x05]
   \<and> PDU spec_env msg_e_acute =
       Inr (18, [0x00, 0x04, 0x08, 0x81, 0x51, 0x55, 0x21, 0x43, 0x00, 0x00,
                 0x11, 0x10, 0x21, 0x40, 0x50, 0x60, 0x00, 0x02, 0x05])"
  by (simp add: msg_e_acute_def PDU_defs enum_defs spec_defs go_defs)

section \<open>The user-data header of the decoder\<close>

text \<open>
  For every environment, a result of \<open>ReadFrom\<close> on octets that select the Submit case
  has the empty user-data header of the zero message: that case never calls the header
  parser.
\<close>

lemma ReadFrom_Submit_no_UserDataHeader:
  assumes "scLen \<le> 16" and "unat scLen < length rest"
    and "(rest ! unat scLen) AND 0x03 = MessageTypes_Submit"
    and "ReadFrom E (scLen # rest) = Inr (s', n', e)"
  shows "UserDataHeader s' = []"
  using ReadFrom_Submit_UserDataHeader
          [OF assms(4) [unfolded ReadFrom_selects_Submit [OF assms(1-3)]]]
  by (simp add: Message_zero_def)

text \<open>
  C3. The claim: on accepted octets whose frame has the header indicator set, whatever
  the frame, the header is parsed from the front of the user data into the message. A
  Submit frame with the indicator set and a header of one element in front of the UCS-2
  text is accepted, the indicator is copied, and the header of the message stays empty; the
  same user data in a Deliver frame yields the element.
\<close>

theorem ReadFrom_Submit_header_not_parsed:
  "ReadFrom spec_env octets_submit_udh =
     Inr (Message_zero\<lparr> Type := MessageTypes_Submit, Encoding := Encodings_UCS2,
                        Address := ''15551234'', Text := ''hi'',
                        UserDataHeader := [],
                        UserDataStartsWithHeader := True \<rparr>, 22, None)
   \<and> ReadFrom spec_env octets_deliver_udh =
     Inr (Message_zero\<lparr> Type := MessageTypes_Deliver, Encoding := Encodings_UCS2,
                        Address := ''15551234'', Text := ''hi'',
                        ServiceCenterTime :=
                          \<lparr> Year = 2011, Month = 1, Day = 12, Hour = 4, Minute = 5,
                            Second = 6, Offset = 0 \<rparr>,
                        UserDataHeader := [(0x00, [0xC2, 0x02, 0x01])],
                        UserDataStartsWithHeader := True \<rparr>, 28, None)"
  by (simp add: octets_submit_udh_def octets_deliver_udh_def ReadFrom_defs enum_defs
      spec_defs go_defs)

section \<open>The truncation of the decoder\<close>

text \<open>
  When the decoded text has one-byte characters only, the 7-bit case of \<open>ReadFrom\<close> keeps
  its first characters up to the user-data length, for every environment.
\<close>

lemma ReadFrom_text_ascii:
  assumes "Encoding s = Encodings_Gsm7Bit \<or> Encoding s = Encodings_Gsm7Bit_2"
    and "Decode7Bit E userData = (text, None)"
    and "list_all (\<lambda>c. (of_char c :: nat) < 0x80) text"
  shows "ReadFrom_text E s n userData udl = Inr (s\<lparr>Text := take (unat udl) text\<rparr>, n, None)"
  using assms(1,2) cutStr_ascii [OF assms(3), of "uint udl" "rune_slice_spare E text"]
  by (auto simp: ReadFrom_text_def)

text \<open>
  C4. The claim: the decoded 7-bit text is cut to the user-data length when it is longer
  and is left unchanged otherwise. A Deliver frame with the user-data length 2 and the two
  septets escape, 0x65 decodes to the one character U+20AC (three bytes), which is not
  longer than 2: the comparison of \<open>cutStr\<close> with the byte count slices two runes out of
  one. With the spare capacity of the runtime the text is the character followed by NUL;
  without spare capacity \<open>ReadFrom\<close> panics.
\<close>

theorem ReadFrom_euro_not_unchanged:
  "Decode7Bit spec_env [0x9B, 0x32] = ([CHR 0xE2, CHR 0x82, CHR 0xAC], None)
   \<and> ReadFrom spec_env octets_euro =
       Inr (Message_zero\<lparr> Type := MessageTypes_Deliver, Encoding := Encodings_Gsm7Bit,
                          Address := ''15551234'',
                          Text := [CHR 0xE2, CHR 0x82, CHR 0xAC, CHR 0x00],
                          ServiceCenterTime :=
                            \<lparr> Year = 2011, Month = 1, Day = 12, Hour = 4, Minute = 5,
                              Second = 6, Offset = 0 \<rparr> \<rparr>, 20, None)
   \<and> ReadFrom (spec_env\<lparr>rune_slice_spare := (\<lambda>_. 1)\<rparr>) octets_euro =
       Inr (Message_zero\<lparr> Type := MessageTypes_Deliver, Encoding := Encodings_Gsm7Bit,
                          Address := ''15551234'',
                          Text := [CHR 0xE2, CHR 0x82, CHR 0xAC, CHR 0x00],
                          ServiceCenterTime :=
                            \<lparr> Year = 2011, Month = 1, Day = 12, Hour = 4, Minute = 5,
                              Second = 6, Offset = 0 \<rparr> \<rparr>, 20, None)
   \<and> ReadFrom (spec_env\<lparr>rune_slice_spare := (\<lambda>_. 0)\<rparr>) octets_euro
       = Inl SliceBoundsOutOfRange"
  by (simp add: octets_euro_def ReadFrom_defs enum_defs spec_defs go_defs)

section \<open>The round trip\<close>














end
